theory Spec2Isabelle
  imports Complex_Main
begin

section \<open>JavaScript values used by CursorManager\<close>

text \<open>
  A parameter that the code tests against \<open>null\<close> and \<open>undefined\<close> is a \<open>nullable\<close>:
  \<open>Val x\<close> is a proper value. For a numeric parameter, \<open>Undefined\<close> and \<open>Null\<close> also stand
  for every argument whose \<open>typeof\<close> is not \<open>'number'\<close>.
\<close>

datatype 'a nullable = Undefined | Null | Val 'a

text \<open>
  A JavaScript \<open>number\<close>. The code only compares numbers, so a finite double is taken as
  the rational it denotes; \<open>NaN\<close> and the infinities are kept, since the guards of
  \<open>setSelection\<close> see them.
\<close>

datatype number = Fin rat | NaN | PosInf | NegInf

text \<open>The operator \<open><\<close> of JavaScript on numbers: every comparison with \<open>NaN\<close> is false.\<close>

fun num_lt :: "number \<Rightarrow> number \<Rightarrow> bool" where
  "num_lt (Fin a) (Fin b) = (a < b)"
| "num_lt (Fin a) PosInf = True"
| "num_lt NegInf (Fin b) = True"
| "num_lt NegInf PosInf = True"
| "num_lt _ _ = False"

definition num_gt :: "number \<Rightarrow> number \<Rightarrow> bool" where
  "num_gt a b = num_lt b a"

text \<open>A string length or a selection offset, as the number the code computes with.\<close>

definition of_length :: "nat \<Rightarrow> number" where
  "of_length n = Fin (of_nat n)"

text \<open>
  \<open>String.prototype.substring(start, end)\<close> on offsets that are already non-negative
  integers: both are clamped to the length and swapped when \<open>start > end\<close>.
  \<open>substring_from\<close> is the call with \<open>end\<close> left out.
\<close>

definition substring :: "string \<Rightarrow> nat \<Rightarrow> nat \<Rightarrow> string" where
  "substring s a b =
     (let len = length s;
          finalStart = min a len;
          finalEnd = min b len;
          from = min finalStart finalEnd;
          to = max finalStart finalEnd
      in take (to - from) (drop from s))"

definition substring_from :: "string \<Rightarrow> nat \<Rightarrow> string" where
  "substring_from s a = substring s a (length s)"

section \<open>The textarea element\<close>

text \<open>
  The part of an \<open>HTMLTextAreaElement\<close> that CursorManager reads and writes: the string
  that reading \<open>value\<close> gives (one \<open>char\<close> per UTF-16 code unit), \<open>selectionStart\<close>,
  \<open>selectionEnd\<close>, whether it has the focus, and whether it can take it (it is attached
  to a document, rendered and not disabled). The field is named \<open>value'\<close> because
  \<open>value\<close> is reserved.
\<close>

record textarea =
  value' :: string
  selectionStart :: nat
  selectionEnd :: nat
  focused :: bool
  focusable :: bool

text \<open>Carriage return and line feed.\<close>

definition CR :: char where
  "CR = CHR 0x0D"

definition LF :: char where
  "LF = CHR 0x0A"

text \<open>
  The value that is read back from a textarea has its line breaks normalised: every
  pair CR LF becomes one LF, and every CR that is left becomes LF.
\<close>

fun normalize_newlines :: "string \<Rightarrow> string" where
  "normalize_newlines (a # b # cs) =
     (if a = CR \<and> b = LF then LF # normalize_newlines cs
      else if a = CR then LF # normalize_newlines (b # cs)
      else a # normalize_newlines (b # cs))"
| "normalize_newlines [a] = (if a = CR then [LF] else [a])"
| "normalize_newlines [] = []"

text \<open>
  Between two calls the element keeps its selection inside its value, and the value it
  gives holds no carriage return.
\<close>

definition wf_textarea :: "textarea \<Rightarrow> bool" where
  "wf_textarea t =
     (selectionStart t \<le> selectionEnd t \<and> selectionEnd t \<le> length (value' t) \<and>
      CR \<notin> set (value' t))"

text \<open>
  The element's own operations, after the HTML standard. Assigning \<open>value\<close> makes the
  value that is read back the assigned string with its line breaks normalised; when
  that differs from the old value, the caret moves to the end of the text and nothing
  is selected. \<open>setSelectionRange\<close> converts its arguments to unsigned integers, clamps
  \<open>end\<close> to the length and \<open>start\<close> to \<open>end\<close>. In the conversion a finite non-negative
  number is truncated, \<open>NaN\<close> and the infinities become 0; the wrap-around modulo \<open>2^32\<close>
  is left out, since no string is that long and the guards of \<open>setSelection\<close> let no
  negative number through. \<open>focus()\<close> gives the focus to an element that can take it and
  does nothing to one that cannot.
\<close>

definition dom_set_value :: "textarea \<Rightarrow> string \<Rightarrow> textarea" where
  "dom_set_value t v =
     (let v' = normalize_newlines v
      in if v' = value' t then t
         else t\<lparr>value' := v', selectionStart := length v', selectionEnd := length v'\<rparr>)"

fun to_unsigned_long :: "number \<Rightarrow> nat" where
  "to_unsigned_long (Fin r) = nat \<lfloor>r\<rfloor>"
| "to_unsigned_long _ = 0"

definition dom_setSelectionRange :: "textarea \<Rightarrow> number \<Rightarrow> number \<Rightarrow> textarea" where
  "dom_setSelectionRange t s e =
     (let e' = min (to_unsigned_long e) (length (value' t));
          s' = min (to_unsigned_long s) e'
      in t\<lparr>selectionStart := s', selectionEnd := e'\<rparr>)"

definition dom_focus :: "textarea \<Rightarrow> textarea" where
  "dom_focus t = (if focusable t then t\<lparr>focused := True\<rparr> else t)"

section \<open>CursorManager\<close>

text \<open>
  \<open>CursorSelection\<close> and \<open>TextInsertionResult\<close> of the type declarations. The fields
  \<open>end\<close> and \<open>text\<close> carry a prime, both words being reserved.
\<close>

record CursorSelection =
  start :: nat
  end' :: nat
  hasSelection :: bool
  text' :: string

record TextInsertionResult =
  newStart :: nat
  newEnd :: nat
  modified :: bool

text \<open>
  Every \<open>throw new Error(...)\<close> of CursorManager, one constructor per message (the name of
  the throwing method in the message is dropped).
\<close>

datatype error =
    TextareaRequired
  | StartNotNonNegative
  | StartExceedsLength
  | EndNotNonNegative
  | EndBeforeStart
  | EndExceedsLength
  | TextRequired
  | PrefixRequired
  | SuffixRequired

text \<open>
  A method that mutates the textarea returns what it returned or threw, and the textarea
  as the call left it: a throw does not undo an assignment made before it.
\<close>

type_synonym 'a outcome = "(error + 'a) \<times> textarea nullable"

definition getSelection :: "textarea nullable \<Rightarrow> error + CursorSelection" where
  "getSelection textarea =
     (case textarea of
        Val t \<Rightarrow>
          (let s = selectionStart t;
               e = selectionEnd t
           in Inr \<lparr>start = s, end' = e, hasSelection = (s \<noteq> e),
                   text' = substring (value' t) s e\<rparr>)
      | _ \<Rightarrow> Inl TextareaRequired)"

definition getSelectedText :: "textarea nullable \<Rightarrow> error + string" where
  "getSelectedText textarea =
     (case getSelection textarea of Inl err \<Rightarrow> Inl err | Inr sel \<Rightarrow> Inr (text' sel))"

text \<open>
  \<open>setSelection(textarea, start, end?, focus = true)\<close>. An omitted \<open>end\<close> is \<open>Undefined\<close>;
  the guards run in the order of the source, and only then is the element touched.
\<close>

definition setSelection ::
  "textarea nullable \<Rightarrow> number nullable \<Rightarrow> number nullable \<Rightarrow> bool \<Rightarrow> unit outcome" where
  "setSelection textarea startArg endArg focus =
     (case textarea of
        Val t \<Rightarrow>
          (case startArg of
             Val s \<Rightarrow>
               if num_lt s (Fin 0) then (Inl StartNotNonNegative, textarea)
               else if num_gt s (of_length (length (value' t))) then (Inl StartExceedsLength, textarea)
               else
                 (case (case endArg of Undefined \<Rightarrow> startArg | _ \<Rightarrow> endArg) of
                    Val e \<Rightarrow>
                      if num_lt e (Fin 0) then (Inl EndNotNonNegative, textarea)
                      else if num_lt e s then (Inl EndBeforeStart, textarea)
                      else if num_gt e (of_length (length (value' t))) then (Inl EndExceedsLength, textarea)
                      else
                        (let t1 = dom_setSelectionRange t s e
                         in (Inr (), Val (if focus then dom_focus t1 else t1)))
                  | _ \<Rightarrow> (Inl EndNotNonNegative, textarea))
           | _ \<Rightarrow> (Inl StartNotNonNegative, textarea))
      | _ \<Rightarrow> (Inl TextareaRequired, textarea))"

text \<open>\<open>insertText(textarea, text, selectInserted = false)\<close>.\<close>

definition insertText ::
  "textarea nullable \<Rightarrow> string nullable \<Rightarrow> bool \<Rightarrow> TextInsertionResult outcome" where
  "insertText textarea textArg selectInserted =
     (case textarea of
        Val t \<Rightarrow>
          (case textArg of
             Val txt \<Rightarrow>
               (let s = selectionStart t;
                    e = selectionEnd t;
                    before = substring (value' t) 0 s;
                    after = substring_from (value' t) e;
                    newValue = before @ txt @ after;
                    t1 = dom_set_value t newValue;
                    nStart = (if selectInserted then s else s + length txt);
                    nEnd = s + length txt
                in case setSelection (Val t1) (Val (of_length nStart)) (Val (of_length nEnd)) True of
                     (Inl err, ta) \<Rightarrow> (Inl err, ta)
                   | (Inr _, ta) \<Rightarrow>
                       (Inr \<lparr>newStart = nStart, newEnd = nEnd, modified = True\<rparr>, ta))
           | _ \<Rightarrow> (Inl TextRequired, textarea))
      | _ \<Rightarrow> (Inl TextareaRequired, textarea))"

definition replaceSelection ::
  "textarea nullable \<Rightarrow> string nullable \<Rightarrow> TextInsertionResult outcome" where
  "replaceSelection textarea replacement = insertText textarea replacement False"

text \<open>\<open>wrapSelection(textarea, prefix, suffix, selectWrapped = false)\<close>.\<close>

definition wrapSelection ::
  "textarea nullable \<Rightarrow> string nullable \<Rightarrow> string nullable \<Rightarrow> bool \<Rightarrow>
     TextInsertionResult outcome" where
  "wrapSelection textarea prefixArg suffixArg selectWrapped =
     (case textarea of
        Val t \<Rightarrow>
          (case prefixArg of
             Val pre \<Rightarrow>
               (case suffixArg of
                  Val suf \<Rightarrow>
                    (case getSelection textarea of
                       Inl err \<Rightarrow> (Inl err, textarea)
                     | Inr selection \<Rightarrow>
                         (let originalStart = start selection;
                              wrappedText = pre @ text' selection @ suf;
                              before = substring (value' t) 0 originalStart;
                              after = substring_from (value' t) (end' selection);
                              t1 = dom_set_value t (before @ wrappedText @ after);
                              nStart =
                                (if \<not> hasSelection selection then originalStart + length pre
                                 else if selectWrapped then originalStart + length pre
                                 else originalStart + length wrappedText);
                              nEnd =
                                (if \<not> hasSelection selection then originalStart + length pre
                                 else if selectWrapped
                                   then originalStart + length pre + length (text' selection)
                                 else originalStart + length wrappedText)
                          in case setSelection (Val t1) (Val (of_length nStart))
                                    (Val (of_length nEnd)) True of
                               (Inl err, ta) \<Rightarrow> (Inl err, ta)
                             | (Inr _, ta) \<Rightarrow>
                                 (Inr \<lparr>newStart = nStart, newEnd = nEnd, modified = True\<rparr>, ta)))
                | _ \<Rightarrow> (Inl SuffixRequired, textarea))
           | _ \<Rightarrow> (Inl PrefixRequired, textarea))
      | _ \<Rightarrow> (Inl TextareaRequired, textarea))"

section \<open>Wiki-link notation\<close>

text \<open>
  \<open>WikiLinkData\<close> of the type declarations; \<open>section\<close> carries a prime, the word being
  reserved, and \<open>null\<close> is \<open>None\<close>.
\<close>

record WikiLinkData =
  target :: string
  display :: string
  section' :: "string option"
  raw :: string

text \<open>
  Modelled from the spec: one element of the sequence that \<open>parse\<close> produces, the data
  of a span with the offsets \<open>matchStart\<close> and \<open>matchEnd\<close>. The source declares no such
  type.
\<close>

record wiki_match =
  data :: WikiLinkData
  matchStart :: nat
  matchEnd :: nat

text \<open>The parts of a string before and after the first occurrence of a character.\<close>

fun split_first :: "char \<Rightarrow> string \<Rightarrow> (string \<times> string) option" where
  "split_first c [] = None"
| "split_first c (x # xs) =
     (if x = c then Some ([], xs)
      else (case split_first c xs of None \<Rightarrow> None | Some (a, b) \<Rightarrow> Some (x # a, b)))"

text \<open>
  Modelled from the spec: the parsing of one \<open>[[...]]\<close> span, which the source only
  announces (the wiki-link plugin of the parser is a commented-out stub). The content
  is split at the first \<open>|\<close>. With no \<open>|\<close>, the content is split at its first \<open>#\<close> into
  target and section. With a \<open>|\<close>, the part before it is the target and the \<open>#\<close> is
  searched in the display segment. The display defaults to the target when there is no
  display segment or it is empty; the section is \<open>null\<close> when there is no \<open>#\<close>; \<open>raw\<close> is
  the span with its brackets.
\<close>

definition parseWikiLink :: "string \<Rightarrow> WikiLinkData" where
  "parseWikiLink content =
     (case split_first (CHR ''|'') content of
        None \<Rightarrow>
          (case split_first (CHR ''#'') content of
             None \<Rightarrow> \<lparr>target = content, display = content, section' = None,
                        raw = ''[['' @ content @ '']]''\<rparr>
           | Some (tgt, sec) \<Rightarrow> \<lparr>target = tgt, display = tgt, section' = Some sec,
                        raw = ''[['' @ content @ '']]''\<rparr>)
      | Some (tgt, rest) \<Rightarrow>
          (case split_first (CHR ''#'') rest of
             None \<Rightarrow> \<lparr>target = tgt, display = (if rest = [] then tgt else rest),
                        section' = None, raw = ''[['' @ content @ '']]''\<rparr>
           | Some (disp, sec) \<Rightarrow> \<lparr>target = tgt, display = (if disp = [] then tgt else disp),
                        section' = Some sec, raw = ''[['' @ content @ '']]''\<rparr>))"

text \<open>
  Modelled from the spec: the first \<open>]]\<close> after an opening \<open>[[\<close> closes the span.
  \<open>find_close\<close> gives the content before that \<open>]]\<close> and the text after it.
\<close>

fun find_close :: "string \<Rightarrow> (string \<times> string) option" where
  "find_close (a # b # cs) =
     (if a = CHR '']'' \<and> b = CHR '']'' then Some ([], cs)
      else (case find_close (b # cs) of None \<Rightarrow> None | Some (x, r) \<Rightarrow> Some (a # x, r)))"
| "find_close _ = None"

text \<open>
  Modelled from the spec: the scan behind \<open>parse\<close>, absent from the source like the
  rest of the codec. From offset \<open>pos\<close> on it gives every \<open>[[...]]\<close> span of the text,
  left to right and without overlap, with the offset of its \<open>[[\<close> and the offset after
  its \<open>]]\<close>. An opening \<open>[[\<close> that no \<open>]]\<close> follows is skipped.
\<close>

function parse_from :: "nat \<Rightarrow> string \<Rightarrow> wiki_match list" where
  "parse_from pos (a # b # cs) =
     (if a = CHR ''['' \<and> b = CHR ''[''
      then (case find_close cs of
              Some (content, rest) \<Rightarrow>
                \<lparr>data = parseWikiLink content, matchStart = pos,
                 matchEnd = pos + length content + 4\<rparr>
                  # parse_from (pos + length content + 4) rest
            | None \<Rightarrow> parse_from (pos + 1) (b # cs))
      else parse_from (pos + 1) (b # cs))"
| "parse_from pos [c] = []"
| "parse_from pos [] = []"
  by pat_completeness auto
termination
proof (relation "measure (\<lambda>(pos, s). length s)")
  show "wf (measure (\<lambda>(pos, s). length s))" by simp
next
  fix pos :: nat and a b :: char and cs x2 content rest
  assume "find_close cs = Some x2" and "(content, rest) = x2"
  then have fc: "find_close cs = Some (content, rest)" by simp
  have "find_close s = Some (c, r) \<Longrightarrow> length r < length s" for s c r
  proof (induction s arbitrary: c r rule: find_close.induct)
    case (1 a b cs)
    then show ?case by (auto split: if_splits option.splits)
  qed simp_all
  from this [OF fc]
  show "((pos + length content + 4, rest), pos, a # b # cs) \<in> measure (\<lambda>(pos, s). length s)"
    by simp
qed simp_all

text \<open>
  Modelled from the spec: \<open>parse(text)\<close>, the matches of the whole text. The source has
  no such function.
\<close>

definition parse :: "string \<Rightarrow> wiki_match list" where
  "parse text_in = parse_from 0 text_in"

section \<open>Textareas of the documented examples\<close>

text \<open>
  The two examples of the \<open>CursorSelection\<close> documentation, on a textarea of a page:
  "World" selected in "Hello World" (\<open>{start: 6, end: 11}\<close>), and the caret after
  typing "Hello" (\<open>{start: 5, end: 5}\<close>).
\<close>

definition hello_world :: textarea where
  "hello_world =
     \<lparr>value' = ''Hello World'', selectionStart = 6, selectionEnd = 11, focused = False,
      focusable = True\<rparr>"

definition hello_caret :: textarea where
  "hello_caret =
     \<lparr>value' = ''Hello'', selectionStart = 5, selectionEnd = 5, focused = False,
      focusable = True\<rparr>"

text \<open>The range a \<open>TextInsertionResult\<close> reports, when the call returned one.\<close>

definition reported_range :: "TextInsertionResult outcome \<Rightarrow> (nat \<times> nat) option" where
  "reported_range out =
     (case fst out of Inr r \<Rightarrow> Some (newStart r, newEnd r) | Inl _ \<Rightarrow> None)"

text \<open>The value of the textarea after a call.\<close>

definition content_after :: "'a outcome \<Rightarrow> string option" where
  "content_after out = (case snd out of Val t \<Rightarrow> Some (value' t) | _ \<Rightarrow> None)"

text \<open>
  Undoing a wrap on a string: the \<open>prefixLen\<close> characters at \<open>wrapStart\<close> and the
  \<open>suffixLen\<close> characters that end at \<open>wrapEnd\<close> are deleted, the rest is kept.
\<close>

definition removeWrapper :: "string \<Rightarrow> nat \<Rightarrow> nat \<Rightarrow> nat \<Rightarrow> nat \<Rightarrow> string" where
  "removeWrapper content wrapStart wrapEnd prefixLen suffixLen =
     take wrapStart content @
     take (wrapEnd - suffixLen - (wrapStart + prefixLen)) (drop (wrapStart + prefixLen) content) @
     drop wrapEnd content"

section \<open>Facts about the helpers\<close>

lemma substring_prefix: "substring s 0 a = take a s"
  by (simp add: substring_def Let_def min_def)

lemma substring_from_drop: "substring_from s a = drop a s"
  by (simp add: substring_from_def substring_def Let_def min_def max_def)

lemma substring_ordered:
  "a \<le> b \<Longrightarrow> b \<le> length s \<Longrightarrow> substring s a b = take (b - a) (drop a s)"
  by (simp add: substring_def Let_def min_def max_def)

lemma length_substring_ordered:
  "a \<le> b \<Longrightarrow> b \<le> length s \<Longrightarrow> length (substring s a b) = b - a"
  by (simp add: substring_ordered)

lemma CR_neq_LF: "CR \<noteq> LF" "LF \<noteq> CR"
  by (simp_all add: CR_def LF_def)

text \<open>A string with no carriage return is its own normal form.\<close>

lemma normalize_newlines_id: "CR \<notin> set v \<Longrightarrow> normalize_newlines v = v"
  by (induction v rule: normalize_newlines.induct) auto

lemma CR_notin_normalize_newlines: "CR \<notin> set (normalize_newlines v)"
  by (induction v rule: normalize_newlines.induct) (auto simp: CR_neq_LF)

lemma CR_notin_take: "CR \<notin> set v \<Longrightarrow> CR \<notin> set (take n v)"
  by (auto dest: in_set_takeD)

lemma CR_notin_drop: "CR \<notin> set v \<Longrightarrow> CR \<notin> set (drop n v)"
  by (auto dest: in_set_dropD)

lemma to_unsigned_long_of_length: "to_unsigned_long (of_length n) = n"
  by (simp add: of_length_def)

lemma num_lt_of_length: "num_lt (of_length a) (of_length b) = (a < b)"
  by (simp add: of_length_def)

lemma num_lt_of_length_zero: "num_lt (of_length a) (Fin 0) = False"
  by (simp add: of_length_def)

text \<open>Offsets that lie in the value pass every guard of \<open>setSelection\<close> and are committed.\<close>

lemma setSelection_in_range:
  assumes "a \<le> b" and "b \<le> length (value' t)"
  shows "setSelection (Val t) (Val (of_length a)) (Val (of_length b)) f =
           (Inr (), Val (t\<lparr>selectionStart := a, selectionEnd := b,
                           focused := (f \<and> focusable t) \<or> focused t\<rparr>))"
  using assms
  by (simp add: setSelection_def num_gt_def num_lt_of_length num_lt_of_length_zero
      dom_setSelectionRange_def dom_focus_def to_unsigned_long_of_length Let_def min_def)

text \<open>Offsets that \<open>setSelection\<close> accepted lie in the value and were committed.\<close>

lemma setSelection_accepted:
  assumes "setSelection (Val t) (Val (of_length a)) (Val (of_length b)) f = (Inr u, ta)"
  shows "a \<le> b \<and> b \<le> length (value' t) \<and>
         ta = Val (t\<lparr>selectionStart := a, selectionEnd := b,
                       focused := (f \<and> focusable t) \<or> focused t\<rparr>)"
proof -
  have ab: "a \<le> b" and bl: "b \<le> length (value' t)"
    using assms
    by (auto simp: setSelection_def num_gt_def num_lt_of_length num_lt_of_length_zero
        split: if_splits)
  from assms show ?thesis
    by (simp add: setSelection_in_range [OF ab bl] ab bl)
qed

text \<open>A failing \<open>setSelection\<close> has not touched the element.\<close>

lemma setSelection_fails_unchanged:
  "setSelection ta s e f = (Inl err, ta') \<Longrightarrow> ta' = ta"
  by (auto simp: setSelection_def Let_def split: nullable.splits if_splits)

lemma value_dom_set_value: "value' (dom_set_value t v) = normalize_newlines v"
  by (simp add: dom_set_value_def Let_def)

lemma focus_dom_set_value:
  "focusable (dom_set_value t v) = focusable t" "focused (dom_set_value t v) = focused t"
  by (simp_all add: dom_set_value_def Let_def)

lemma dom_set_value_then_select:
  "(dom_set_value t v)\<lparr>selectionStart := a, selectionEnd := b, focused := c\<rparr> =
     t\<lparr>value' := normalize_newlines v, selectionStart := a, selectionEnd := b, focused := c\<rparr>"
  by (simp add: dom_set_value_def Let_def)

lemma setSelection_after_set_value:
  assumes "a \<le> b" and "b \<le> length v" and "CR \<notin> set v"
  shows "setSelection (Val (dom_set_value t v)) (Val (of_length a)) (Val (of_length b)) True =
           (Inr (), Val (t\<lparr>value' := v, selectionStart := a, selectionEnd := b,
                           focused := focusable t \<or> focused t\<rparr>))"
  using assms
  by (simp add: setSelection_in_range value_dom_set_value dom_set_value_then_select
      focus_dom_set_value normalize_newlines_id)

text \<open>
  What \<open>insertText\<close> does to a well-formed textarea when the text holds no carriage
  return, in one equation.
\<close>

lemma insertText_effect:
  assumes "wf_textarea t" and "CR \<notin> set txt"
  shows "insertText (Val t) (Val txt) si =
    (Inr \<lparr>newStart = (if si then selectionStart t else selectionStart t + length txt),
          newEnd = selectionStart t + length txt, modified = True\<rparr>,
     Val (t\<lparr>value' := take (selectionStart t) (value' t) @ txt @ drop (selectionEnd t) (value' t),
            selectionStart := (if si then selectionStart t else selectionStart t + length txt),
            selectionEnd := selectionStart t + length txt,
            focused := focusable t \<or> focused t\<rparr>))"
proof -
  from assms have len: "selectionStart t \<le> length (value' t)" and cr: "CR \<notin> set (value' t)"
    by (simp_all add: wf_textarea_def)
  have crv: "CR \<notin> set (take (selectionStart t) (value' t) @ txt @ drop (selectionEnd t) (value' t))"
    using cr assms(2) by (simp add: CR_notin_take CR_notin_drop)
  show ?thesis
    unfolding insertText_def
    using len
    by (simp add: Let_def substring_prefix substring_from_drop
        setSelection_after_set_value [OF _ _ crv])
qed

text \<open>
  What \<open>wrapSelection\<close> does to a well-formed textarea when prefix and suffix hold no
  carriage return, in one equation.
\<close>

lemma wrapSelection_effect:
  assumes "wf_textarea t" and "CR \<notin> set pre" and "CR \<notin> set suf"
  shows "wrapSelection (Val t) (Val pre) (Val suf) sw =
    (let s = selectionStart t; e = selectionEnd t;
         a = (if s = e then s + length pre else if sw then s + length pre
              else s + length pre + (e - s) + length suf);
         b = (if s = e then s + length pre else if sw then s + length pre + (e - s)
              else s + length pre + (e - s) + length suf)
     in (Inr \<lparr>newStart = a, newEnd = b, modified = True\<rparr>,
         Val (t\<lparr>value' :=
                  take s (value' t) @ (pre @ take (e - s) (drop s (value' t)) @ suf)
                    @ drop e (value' t),
                selectionStart := a, selectionEnd := b,
                focused := focusable t \<or> focused t\<rparr>)))"
proof -
  let ?s = "selectionStart t" and ?e = "selectionEnd t"
  from assms have se: "?s \<le> ?e" and el: "?e \<le> length (value' t)"
    and cr: "CR \<notin> set (value' t)"
    by (simp_all add: wf_textarea_def)
  have sub: "substring (value' t) ?s ?e = take (?e - ?s) (drop ?s (value' t))"
    by (rule substring_ordered [OF se el])
  have m: "min (length (value' t) - ?s) (?e - ?s) = ?e - ?s"
    using se el by arith
  note crs = CR_notin_take CR_notin_drop cr assms(2,3)
  show ?thesis
    unfolding wrapSelection_def getSelection_def
    using se el
    by (simp add: Let_def substring_prefix substring_from_drop sub
        setSelection_after_set_value m crs)
qed

lemma wf_hello_world: "wf_textarea hello_world"
  by (simp add: wf_textarea_def hello_world_def CR_def)

lemma wf_hello_caret: "wf_textarea hello_caret"
  by (simp add: wf_textarea_def hello_caret_def CR_def)

lemma no_CR_stars: "CR \<notin> set ''**''"
  by (simp add: CR_def)

lemma removeWrapper_append:
  "removeWrapper (a @ (p @ m @ s) @ z) (length a) (length a + length p + length m + length s)
     (length p) (length s) = a @ m @ z"
  by (simp add: removeWrapper_def)


lemma insertText_fail_cases:
  "insertText Undefined textArg si = (Inl TextareaRequired, Undefined)"
  "insertText Null textArg si = (Inl TextareaRequired, Null)"
  "insertText (Val t) Undefined si = (Inl TextRequired, Val t)"
  "insertText (Val t) Null si = (Inl TextRequired, Val t)"
  by (simp_all add: insertText_def)

lemma wrapSelection_fail_cases:
  "wrapSelection Undefined pre suf sw = (Inl TextareaRequired, Undefined)"
  "wrapSelection Null pre suf sw = (Inl TextareaRequired, Null)"
  "wrapSelection (Val t) Undefined suf sw = (Inl PrefixRequired, Val t)"
  "wrapSelection (Val t) Null suf sw = (Inl PrefixRequired, Val t)"
  "wrapSelection (Val t) (Val p) Undefined sw = (Inl SuffixRequired, Val t)"
  "wrapSelection (Val t) (Val p) Null sw = (Inl SuffixRequired, Val t)"
  by (simp_all add: wrapSelection_def)

text \<open>What a returning \<open>insertText\<close> has done, whatever the text.\<close>

lemma insertText_returned:
  assumes "insertText (Val t) (Val txt) si = (Inr r, ta')"
  shows "r = \<lparr>newStart = (if si then selectionStart t else selectionStart t + length txt),
              newEnd = selectionStart t + length txt, modified = True\<rparr> \<and>
         (\<exists>t'. ta' = Val t' \<and> selectionStart t' = newStart r \<and> selectionEnd t' = newEnd r \<and>
            value' t' = normalize_newlines
              (take (selectionStart t) (value' t) @ txt @ drop (selectionEnd t) (value' t)))"
proof -
  let ?t1 = "dom_set_value t (take (selectionStart t) (value' t) @ txt @ drop (selectionEnd t) (value' t))"
  let ?a = "if si then selectionStart t else selectionStart t + length txt"
  let ?b = "selectionStart t + length txt"
  from assms obtain u where
    sel: "setSelection (Val ?t1) (Val (of_length ?a)) (Val (of_length ?b)) True = (Inr u, ta')"
    and r: "r = \<lparr>newStart = ?a, newEnd = ?b, modified = True\<rparr>"
    by (auto simp: insertText_def Let_def substring_prefix substring_from_drop
        split: prod.splits sum.splits)
  from setSelection_accepted [OF sel] r show ?thesis
    by (simp add: value_dom_set_value)
qed

text \<open>What a returning \<open>wrapSelection\<close> has done, whatever the prefix and the suffix.\<close>

lemma wrapSelection_returned:
  assumes "wrapSelection (Val t) (Val pre) (Val suf) sw = (Inr r, ta')"
  shows "(newStart r, newEnd r) =
           (let s = selectionStart t; seltext = substring (value' t) s (selectionEnd t) in
            if selectionStart t = selectionEnd t then (s + length pre, s + length pre)
            else if sw then (s + length pre, s + length pre + length seltext)
            else (s + length (pre @ seltext @ suf), s + length (pre @ seltext @ suf))) \<and>
         (\<exists>t'. ta' = Val t' \<and> selectionStart t' = newStart r \<and> selectionEnd t' = newEnd r)"
proof -
  let ?s = "selectionStart t"
  let ?x = "substring (value' t) ?s (selectionEnd t)"
  let ?t1 = "dom_set_value t (take ?s (value' t) @ (pre @ ?x @ suf) @ drop (selectionEnd t) (value' t))"
  let ?a = "if ?s = selectionEnd t then ?s + length pre else if sw then ?s + length pre
            else ?s + length (pre @ ?x @ suf)"
  let ?b = "if ?s = selectionEnd t then ?s + length pre
            else if sw then ?s + length pre + length ?x
            else ?s + length (pre @ ?x @ suf)"
  from assms obtain u where
    sel: "setSelection (Val ?t1) (Val (of_length ?a)) (Val (of_length ?b)) True = (Inr u, ta')"
    and r: "r = \<lparr>newStart = ?a, newEnd = ?b, modified = True\<rparr>"
    by (auto simp: wrapSelection_def getSelection_def Let_def substring_prefix
        substring_from_drop split: prod.splits sum.splits if_splits)
  from setSelection_accepted [OF sel] r show ?thesis
    by (simp add: Let_def)
qed

section \<open>insertText\<close>

text \<open>
  C10. Every call of \<open>insertText\<close>, and so of \<open>replaceSelection\<close>, that returns a result
  returns one whose \<open>modified\<close> field is true. This includes inserting the empty string
  at a caret, where the call returns a result, the value of the textarea is what it
  was, and \<open>modified\<close> is still true.
\<close>

theorem insertText_modified_always_true:
  "(insertText ta txt si = (Inr r, ta') \<longrightarrow> modified r) \<and>
   (replaceSelection ta txt = (Inr r, ta') \<longrightarrow> modified r) \<and>
   (wf_textarea t \<and> selectionStart t = selectionEnd t \<longrightarrow>
      (\<exists>r0 t0. insertText (Val t) (Val []) si = (Inr r0, Val t0) \<and> modified r0 \<and>
         value' t0 = value' t))"
proof -
  have ins: "modified r'" if "insertText ta txt b = (Inr r', ta')" for b r'
    using that
    by (auto simp: insertText_def Let_def split: nullable.splits prod.splits sum.splits)
  have caret: "\<exists>r0 t0. insertText (Val t) (Val []) si = (Inr r0, Val t0) \<and> modified r0 \<and>
         value' t0 = value' t"
    if "wf_textarea t" and "selectionStart t = selectionEnd t"
    using that by (simp add: insertText_effect)
  show ?thesis
    using ins caret by (auto simp: replaceSelection_def)
qed

theorem insertText_modified_always_true_witness:
  "insertText (Val hello_caret) (Val []) False =
     (Inr \<lparr>newStart = 5, newEnd = 5, modified = True\<rparr>,
      Val (hello_caret\<lparr>focused := True\<rparr>)) \<and>
   modified \<lparr>newStart = 5, newEnd = 5, modified = True\<rparr> \<and>
   wf_textarea hello_caret \<and> selectionStart hello_caret = selectionEnd hello_caret \<and>
   (\<exists>r0 t0. insertText (Val hello_caret) (Val []) False = (Inr r0, Val t0) \<and> modified r0 \<and>
      value' t0 = value' hello_caret)"
proof -
  have run: "insertText (Val hello_caret) (Val []) False =
     (Inr \<lparr>newStart = 5, newEnd = 5, modified = True\<rparr>,
      Val (hello_caret\<lparr>focused := True\<rparr>))"
    by (simp add: insertText_effect [OF wf_hello_caret]) (simp add: hello_caret_def)
  have car: "selectionStart hello_caret = selectionEnd hello_caret"
    by (simp add: hello_caret_def)
  from insertText_modified_always_true
    [of "Val hello_caret" "Val []" False "\<lparr>newStart = 5, newEnd = 5, modified = True\<rparr>"
        "Val (hello_caret\<lparr>focused := True\<rparr>)" hello_caret]
    run wf_hello_caret car
  show ?thesis by blast
qed

text \<open>
  C2, as the code has it. On a textarea whose selection lies in its value, \<open>insertText\<close>
  with a text that holds no carriage return returns a result and leaves the value
  \<open>buffer[0:start] + insertText + buffer[end:]\<close>: the text before the selection and the
  text after it are kept as they were, and the selected span is replaced by the
  inserted text. For any text, whenever the call returns, the value is that string
  with its line breaks normalised.
\<close>

theorem insertText_replaces_selection:
  assumes "wf_textarea t"
  shows "(CR \<notin> set txt \<longrightarrow>
           (\<exists>r0 t0. insertText (Val t) (Val txt) si = (Inr r0, Val t0) \<and>
              value' t0 = take (selectionStart t) (value' t) @ txt @ drop (selectionEnd t) (value' t) \<and>
              take (selectionStart t) (value' t0) = take (selectionStart t) (value' t) \<and>
              take (length txt) (drop (selectionStart t) (value' t0)) = txt \<and>
              drop (selectionStart t + length txt) (value' t0) = drop (selectionEnd t) (value' t))) \<and>
         (insertText (Val t) (Val txt) si = (Inr r, ta') \<longrightarrow>
           (\<exists>t'. ta' = Val t' \<and>
              value' t' = normalize_newlines
                (take (selectionStart t) (value' t) @ txt @ drop (selectionEnd t) (value' t))))"
proof -
  from assms have len: "selectionStart t \<le> length (value' t)"
    by (simp add: wf_textarea_def)
  then have l: "length (take (selectionStart t) (value' t)) = selectionStart t"
    by simp
  have a: "\<exists>r0 t0. insertText (Val t) (Val txt) si = (Inr r0, Val t0) \<and>
              value' t0 = take (selectionStart t) (value' t) @ txt @ drop (selectionEnd t) (value' t) \<and>
              take (selectionStart t) (value' t0) = take (selectionStart t) (value' t) \<and>
              take (length txt) (drop (selectionStart t) (value' t0)) = txt \<and>
              drop (selectionStart t + length txt) (value' t0) = drop (selectionEnd t) (value' t)"
    if "CR \<notin> set txt"
    using len by (simp add: insertText_effect [OF assms that] l)
  have b: "\<exists>t'. ta' = Val t' \<and>
              value' t' = normalize_newlines
                (take (selectionStart t) (value' t) @ txt @ drop (selectionEnd t) (value' t))"
    if "insertText (Val t) (Val txt) si = (Inr r, ta')"
    using insertText_returned [OF that] by blast
  from a b show ?thesis by blast
qed

theorem insertText_replaces_selection_witness:
  "wf_textarea hello_world \<and> CR \<notin> set ''there'' \<and>
   (\<exists>r t'. insertText (Val hello_world) (Val ''there'') False = (Inr r, Val t') \<and>
      value' t' = ''Hello there'')"
proof -
  have cr: "CR \<notin> set ''there''" by (simp add: CR_def)
  from insertText_replaces_selection [OF wf_hello_world, of "''there''" False] cr
  obtain r t' where
    run: "insertText (Val hello_world) (Val ''there'') False = (Inr r, Val t')" and
    v: "value' t' = take (selectionStart hello_world) (value' hello_world) @ ''there'' @
          drop (selectionEnd hello_world) (value' hello_world)"
    by blast
  have "value' t' = ''Hello there''"
    using v by (simp add: hello_world_def)
  with run wf_hello_world cr show ?thesis by blast
qed

text \<open>
  C2 as stated fails for a text with a carriage return: inserting CR LF at the start of
  "Hello World" returns, and the value is LF followed by "Hello World", not
  \<open>buffer[0:start] + insertText + buffer[end:]\<close>.
\<close>

theorem insertText_crlf_not_verbatim:
  "insertText
     (Val \<lparr>value' = ''Hello World'', selectionStart = 0, selectionEnd = 0, focused = False,
           focusable = True\<rparr>)
     (Val [CR, LF]) False =
     (Inr \<lparr>newStart = 2, newEnd = 2, modified = True\<rparr>,
      Val \<lparr>value' = LF # ''Hello World'', selectionStart = 2, selectionEnd = 2, focused = True,
           focusable = True\<rparr>) \<and>
   LF # ''Hello World'' \<noteq> take 0 ''Hello World'' @ [CR, LF] @ drop 0 ''Hello World''"
  by (simp add: insertText_def substring_prefix substring_from_drop dom_set_value_def
      setSelection_def num_gt_def of_length_def dom_setSelectionRange_def dom_focus_def
      Let_def CR_def LF_def)

text \<open>
  C5, as the code has it. Inserting the empty string, with \<open>selectInserted\<close> or without, on
  a textarea whose selection lies in its value returns a result, collapses the selection
  to a caret at the old \<open>start\<close>, and leaves the value \<open>buffer[0:start] + buffer[end:]\<close>:
  the selected span is deleted. The value is the old one exactly when the selection was
  empty.
\<close>

theorem insertText_empty_removes_selection:
  assumes "wf_textarea t"
  shows "insertText (Val t) (Val []) si =
           (Inr \<lparr>newStart = selectionStart t, newEnd = selectionStart t, modified = True\<rparr>,
            Val (t\<lparr>value' := take (selectionStart t) (value' t) @ drop (selectionEnd t) (value' t),
                   selectionStart := selectionStart t, selectionEnd := selectionStart t,
                   focused := focusable t \<or> focused t\<rparr>)) \<and>
         ((take (selectionStart t) (value' t) @ drop (selectionEnd t) (value' t) = value' t) =
          (selectionStart t = selectionEnd t))"
proof -
  let ?s = "selectionStart t" and ?e = "selectionEnd t" and ?v = "value' t"
  from assms have se: "?s \<le> ?e" and el: "?e \<le> length ?v"
    by (simp_all add: wf_textarea_def)
  have "take ?s ?v @ drop ?e ?v = ?v \<Longrightarrow> ?s = ?e"
  proof -
    assume "take ?s ?v @ drop ?e ?v = ?v"
    then have "length (take ?s ?v @ drop ?e ?v) = length ?v" by simp
    then show "?s = ?e" using se el by simp
  qed
  moreover have "?s = ?e \<Longrightarrow> take ?s ?v @ drop ?e ?v = ?v" by simp
  ultimately have iff: "(take ?s ?v @ drop ?e ?v = ?v) = (?s = ?e)" by blast
  show ?thesis
    using iff by (simp add: insertText_effect [OF assms])
qed

theorem insertText_empty_removes_selection_witness:
  "wf_textarea hello_world \<and>
   insertText (Val hello_world) (Val []) False =
     (Inr \<lparr>newStart = 6, newEnd = 6, modified = True\<rparr>,
      Val \<lparr>value' = ''Hello '', selectionStart = 6, selectionEnd = 6, focused = True,
           focusable = True\<rparr>)"
  using insertText_empty_removes_selection [OF wf_hello_world, of False] wf_hello_world
  by (simp add: hello_world_def)

text \<open>
  C5 as stated fails on a non-empty selection: with "World" selected in "Hello World",
  inserting the empty string does not leave the value as it was.
\<close>

theorem insertText_empty_changes_selected_content:
  "content_after (insertText (Val hello_world) (Val []) False) \<noteq> Some (value' hello_world)"
  by (simp add: insertText_effect [OF wf_hello_world] content_after_def) (simp add: hello_world_def)

section \<open>wrapSelection\<close>

text \<open>
  C1, as the code has it. Whenever \<open>wrapSelection\<close> with a prefix and a suffix that are
  strings returns, the selection of the textarea is the range it reports, and that
  range is: the caret at \<open>start + length(prefix)\<close> when nothing was selected; else, with
  \<open>selectWrapped\<close>, the range from \<open>start + length(prefix)\<close> to
  \<open>start + length(prefix) + length(selection.text)\<close>; else the caret at
  \<open>start + length(prefix + selection.text + suffix)\<close>. The call returns on every
  textarea whose selection lies in its value when prefix and suffix hold no carriage
  return.
\<close>

theorem wrapSelection_caret_placement:
  "(wrapSelection (Val t) (Val pre) (Val suf) sw = (Inr r, ta') \<longrightarrow>
      (\<exists>t'. ta' = Val t' \<and> selectionStart t' = newStart r \<and> selectionEnd t' = newEnd r) \<and>
      (newStart r, newEnd r) =
        (let s = selectionStart t; seltext = substring (value' t) s (selectionEnd t) in
         if selectionStart t = selectionEnd t then (s + length pre, s + length pre)
         else if sw then (s + length pre, s + length pre + length seltext)
         else (s + length (pre @ seltext @ suf), s + length (pre @ seltext @ suf)))) \<and>
   (wf_textarea t \<and> CR \<notin> set pre \<and> CR \<notin> set suf \<longrightarrow>
      (\<exists>r0 t0. wrapSelection (Val t) (Val pre) (Val suf) sw = (Inr r0, Val t0)))"
proof -
  have ret: "\<exists>r0 t0. wrapSelection (Val t) (Val pre) (Val suf) sw = (Inr r0, Val t0)"
    if "wf_textarea t" and "CR \<notin> set pre" and "CR \<notin> set suf"
    by (simp add: wrapSelection_effect [OF that] Let_def)
  from wrapSelection_returned [of t pre suf sw r ta'] ret show ?thesis
    by blast
qed

theorem wrapSelection_caret_placement_witness:
  "wf_textarea hello_world \<and> CR \<notin> set ''<b>'' \<and> CR \<notin> set ''</b>'' \<and>
   (\<exists>r t'. wrapSelection (Val hello_world) (Val ''<b>'') (Val ''</b>'') True = (Inr r, Val t') \<and>
      selectionStart t' = 9 \<and> selectionEnd t' = 14 \<and> newStart r = 9 \<and> newEnd r = 14)"
proof -
  have c1: "CR \<notin> set ''<b>''" and c2: "CR \<notin> set ''</b>''"
    by (simp_all add: CR_def)
  note inst = wrapSelection_caret_placement [where t = hello_world and pre = "''<b>''"
      and suf = "''</b>''" and sw = True]
  from inst wf_hello_world c1 c2
  obtain r t0 where
    run: "wrapSelection (Val hello_world) (Val ''<b>'') (Val ''</b>'') True = (Inr r, Val t0)"
    by blast
  from inst [where r = r and ta' = "Val t0"] run
  have sel: "selectionStart t0 = newStart r \<and> selectionEnd t0 = newEnd r" and
    pos: "(newStart r, newEnd r) =
       (let s = selectionStart hello_world;
            seltext = substring (value' hello_world) s (selectionEnd hello_world) in
        if selectionStart hello_world = selectionEnd hello_world
        then (s + length ''<b>'', s + length ''<b>'')
        else if True then (s + length ''<b>'', s + length ''<b>'' + length seltext)
        else (s + length (''<b>'' @ seltext @ ''</b>''), s + length (''<b>'' @ seltext @ ''</b>'')))"
    by auto
  from pos have "newStart r = 9 \<and> newEnd r = 14"
    by (simp add: hello_world_def substring_def Let_def)
  with run sel wf_hello_world c1 c2 show ?thesis by auto
qed

text \<open>
  C1 as stated fails for a prefix with a carriage return: with "World" selected in
  "Hello World" and the prefix CR LF, the caret is not placed at
  \<open>start + length(prefix + selection.text + suffix) = 13\<close>. The value read back has 12
  characters, and the call throws.
\<close>

theorem wrapSelection_crlf_prefix_throws:
  "wrapSelection (Val hello_world) (Val [CR, LF]) (Val []) False =
     (Inl StartExceedsLength,
      Val \<lparr>value' = ''Hello '' @ LF # ''World'', selectionStart = 12, selectionEnd = 12,
           focused = False, focusable = True\<rparr>)"
  by (simp add: wrapSelection_def getSelection_def hello_world_def substring_def
      substring_from_def dom_set_value_def setSelection_def num_gt_def of_length_def
      Let_def CR_def LF_def)

text \<open>
  C3, as the code has it. With "World" selected in "Hello World", wrapping in \<open>**\<close> gives
  the value "Hello **World**"; without \<open>selectWrapped\<close> the caret is collapsed at 15,
  which is \<open>6 + length("**World**")\<close> and the length of the new value, and with
  \<open>selectWrapped\<close> the selection is \<open>{8, 13}\<close>.
\<close>

theorem wrapSelection_hello_world_bold:
  "wrapSelection (Val hello_world) (Val ''**'') (Val ''**'') False =
     (Inr \<lparr>newStart = 15, newEnd = 15, modified = True\<rparr>,
      Val \<lparr>value' = ''Hello **World**'', selectionStart = 15, selectionEnd = 15,
           focused = True, focusable = True\<rparr>) \<and>
   wrapSelection (Val hello_world) (Val ''**'') (Val ''**'') True =
     (Inr \<lparr>newStart = 8, newEnd = 13, modified = True\<rparr>,
      Val \<lparr>value' = ''Hello **World**'', selectionStart = 8, selectionEnd = 13,
           focused = True, focusable = True\<rparr>)"
  by (simp add: wrapSelection_effect [OF wf_hello_world no_CR_stars no_CR_stars] Let_def)
     (simp add: hello_world_def)

text \<open>
C3 as stated gives the caret at 16; the call does not report that.
\<close>

theorem wrapSelection_hello_world_caret_not_16:
  "reported_range (wrapSelection (Val hello_world) (Val ''**'') (Val ''**'') False) \<noteq> Some (16, 16)"
  by (simp add: wrapSelection_effect [OF wf_hello_world no_CR_stars no_CR_stars] Let_def
      reported_range_def)
     (simp add: hello_world_def)

text \<open>
  C4, as the code has it. On a textarea whose selection lies in its value, with a prefix
  and a suffix that hold no carriage return, \<open>wrapSelection\<close> round-trips. The result
  does not report the wrapped span itself; the span follows from the reported range:
  when text was selected and \<open>selectWrapped\<close> is false the reported caret is the end of
  the span, which starts \<open>length(prefix + selection.text + suffix)\<close> before it, and
  otherwise the span starts \<open>length(prefix)\<close> before the reported start and ends
  \<open>length(suffix)\<close> after the reported end. That span starts at the old
  \<open>selection.start\<close>; deleting \<open>length(prefix)\<close> characters at its start and
  \<open>length(suffix)\<close> characters that end at its end gives back the old value, and the
  characters deleted are the prefix and the suffix.
\<close>

theorem wrapSelection_round_trip:
  assumes "wf_textarea t" and "CR \<notin> set pre" and "CR \<notin> set suf"
  shows "\<exists>r t'. wrapSelection (Val t) (Val pre) (Val suf) sw = (Inr r, Val t') \<and>
     (let inner = selectionEnd t - selectionStart t;
          caretAfter = (selectionStart t \<noteq> selectionEnd t \<and> \<not> sw);
          wrapStart = (if caretAfter then newEnd r - (length pre + inner + length suf)
                       else newStart r - length pre);
          wrapEnd = (if caretAfter then newEnd r else newEnd r + length suf)
      in wrapStart = selectionStart t \<and>
         wrapEnd = selectionStart t + length pre + inner + length suf \<and>
         removeWrapper (value' t') wrapStart wrapEnd (length pre) (length suf) = value' t \<and>
         take (length pre) (drop wrapStart (value' t')) = pre \<and>
         take (length suf) (drop (wrapEnd - length suf) (value' t')) = suf)"
proof -
  let ?s = "selectionStart t" and ?e = "selectionEnd t" and ?v = "value' t"
  let ?a = "take ?s ?v" and ?m = "take (?e - ?s) (drop ?s ?v)" and ?z = "drop ?e ?v"
  let ?we = "?s + length pre + (?e - ?s) + length suf"
  let ?new = "?a @ (pre @ ?m @ suf) @ ?z"
  from assms have se: "?s \<le> ?e" and el: "?e \<le> length ?v"
    by (simp_all add: wf_textarea_def)
  have la: "length ?a = ?s" using se el by simp
  have lm: "length ?m = ?e - ?s" using se el by simp
  have "?m @ ?z = drop ?s ?v"
    using se el by (metis append_take_drop_id drop_drop le_add_diff_inverse2)
  then have whole: "?a @ ?m @ ?z = ?v" by simp
  have rw: "removeWrapper ?new ?s ?we (length pre) (length suf) = ?v"
    using removeWrapper_append [of ?a pre ?m suf ?z] whole by (simp only: la lm)
  have p: "take (length pre) (drop ?s ?new) = pre"
    using la by simp
  have q: "take (length suf) (drop (?we - length suf) ?new) = suf"
    using la lm by simp
  obtain r t' where
    run: "wrapSelection (Val t) (Val pre) (Val suf) sw = (Inr r, Val t')" and
    v: "value' t' = ?new" and
    ns: "newStart r = (if ?s = ?e then ?s + length pre else if sw then ?s + length pre else ?we)" and
    ne: "newEnd r = (if ?s = ?e then ?s + length pre else if sw then ?s + length pre + (?e - ?s)
                     else ?we)"
    by (simp add: wrapSelection_effect [OF assms] Let_def)
  have ws: "(if ?s \<noteq> ?e \<and> \<not> sw then newEnd r - (length pre + (?e - ?s) + length suf)
             else newStart r - length pre) = ?s"
    using ns ne by simp
  have we: "(if ?s \<noteq> ?e \<and> \<not> sw then newEnd r else newEnd r + length suf) = ?we"
    using ns ne se by simp
  have "let inner = selectionEnd t - selectionStart t;
          caretAfter = (selectionStart t \<noteq> selectionEnd t \<and> \<not> sw);
          wrapStart = (if caretAfter then newEnd r - (length pre + inner + length suf)
                       else newStart r - length pre);
          wrapEnd = (if caretAfter then newEnd r else newEnd r + length suf)
      in wrapStart = selectionStart t \<and>
         wrapEnd = selectionStart t + length pre + inner + length suf \<and>
         removeWrapper (value' t') wrapStart wrapEnd (length pre) (length suf) = value' t \<and>
         take (length pre) (drop wrapStart (value' t')) = pre \<and>
         take (length suf) (drop (wrapEnd - length suf) (value' t')) = suf"
    unfolding Let_def ws we v using rw p q by blast
  with run show ?thesis by blast
qed

theorem wrapSelection_round_trip_witness:
  "wf_textarea hello_world \<and> CR \<notin> set ''**'' \<and>
   (\<exists>r t'. wrapSelection (Val hello_world) (Val ''**'') (Val ''**'') True = (Inr r, Val t') \<and>
      newStart r - 2 = 6 \<and> newEnd r + 2 = 15 \<and>
      removeWrapper (value' t') 6 15 2 2 = ''Hello World'')"
proof -
  from wrapSelection_round_trip [OF wf_hello_world no_CR_stars no_CR_stars, of True]
  obtain r t' where
    run: "wrapSelection (Val hello_world) (Val ''**'') (Val ''**'') True = (Inr r, Val t')" and
    rt: "let inner = selectionEnd hello_world - selectionStart hello_world;
          caretAfter = (selectionStart hello_world \<noteq> selectionEnd hello_world \<and> \<not> True);
          wrapStart = (if caretAfter then newEnd r - (length ''**'' + inner + length ''**'')
                       else newStart r - length ''**'');
          wrapEnd = (if caretAfter then newEnd r else newEnd r + length ''**'')
      in wrapStart = selectionStart hello_world \<and>
         wrapEnd = selectionStart hello_world + length ''**'' + inner + length ''**'' \<and>
         removeWrapper (value' t') wrapStart wrapEnd (length ''**'') (length ''**'') =
           value' hello_world \<and>
         take (length ''**'') (drop wrapStart (value' t')) = ''**'' \<and>
         take (length ''**'') (drop (wrapEnd - length ''**'') (value' t')) = ''**''"
    by blast
  from rt have "newStart r - 2 = 6 \<and> newEnd r + 2 = 15 \<and>
      removeWrapper (value' t') 6 15 2 2 = ''Hello World''"
    by (auto simp: hello_world_def Let_def numeral_2_eq_2)
  with run wf_hello_world no_CR_stars show ?thesis by blast
qed

text \<open>
  C4 as stated takes the reported range for the wrapped span. With "World" selected in
  "Hello World", wrapped in \<open>**\<close> with \<open>selectWrapped\<close>, the reported range is \<open>{8, 13}\<close>;
  deleting 2 characters at 8 and 2 characters that end at 13 does not give back
  "Hello World".
\<close>

theorem wrapSelection_reported_range_is_not_the_span:
  "reported_range (wrapSelection (Val hello_world) (Val ''**'') (Val ''**'') True) = Some (8, 13) \<and>
   content_after (wrapSelection (Val hello_world) (Val ''**'') (Val ''**'') True) =
     Some ''Hello **World**'' \<and>
   removeWrapper ''Hello **World**'' 8 13 2 2 \<noteq> value' hello_world"
  by (simp add: wrapSelection_effect [OF wf_hello_world no_CR_stars no_CR_stars] Let_def
      reported_range_def content_after_def)
     (simp add: hello_world_def removeWrapper_def)

section \<open>setSelection\<close>




section \<open>Failures\<close>

text \<open>
  With a text, a prefix and a suffix that hold no carriage return, a throw of
  \<open>insertText\<close>, \<open>replaceSelection\<close> or \<open>wrapSelection\<close> leaves the textarea as it was.
\<close>

lemma failure_unchanged_without_CR:
  assumes "\<forall>t. ta = Val t \<longrightarrow> wf_textarea t"
    and "\<forall>x. textArg = Val x \<longrightarrow> CR \<notin> set x"
    and "\<forall>x. pre = Val x \<longrightarrow> CR \<notin> set x"
    and "\<forall>x. suf = Val x \<longrightarrow> CR \<notin> set x"
  shows "(insertText ta textArg si = (Inl err, ta') \<longrightarrow> ta' = ta) \<and>
         (replaceSelection ta textArg = (Inl err, ta') \<longrightarrow> ta' = ta) \<and>
         (wrapSelection ta pre suf sw = (Inl err, ta') \<longrightarrow> ta' = ta)"
proof -
  have ins_fail: "ta' = ta" if "insertText ta textArg b = (Inl err, ta')" for b
    using that assms(1,2)
    by (cases ta; cases textArg) (simp_all add: insertText_fail_cases insertText_effect)
  have wrap_fail: "ta' = ta" if "wrapSelection ta pre suf sw = (Inl err, ta')"
    using that assms(1,3,4)
    by (cases ta; cases pre; cases suf)
       (simp_all add: wrapSelection_fail_cases wrapSelection_effect Let_def)
  show ?thesis
    using ins_fail wrap_fail unfolding replaceSelection_def by blast
qed

text \<open>
  C6 asks that a call that throws leave value and selection as they were. \<open>insertText\<close>
  does not: it assigns the value before \<open>setSelection\<close> checks the new offsets against
  the value read back. With the caret at the end of "Hello" and the text CR LF, the
  value read back is "Hello" and one LF, 6 characters; the offset \<open>5 + 2 = 7\<close> exceeds
  it and \<open>setSelection\<close> throws, after the value was changed and the caret moved.
\<close>

theorem insertText_throws_after_assignment:
  "wf_textarea hello_caret \<and>
   insertText (Val hello_caret) (Val [CR, LF]) False =
     (Inl StartExceedsLength,
      Val \<lparr>value' = ''Hello'' @ [LF], selectionStart = 6, selectionEnd = 6, focused = False,
           focusable = True\<rparr>) \<and>
   Val \<lparr>value' = ''Hello'' @ [LF], selectionStart = 6, selectionEnd = 6, focused = False,
        focusable = True\<rparr> \<noteq> Val hello_caret"
proof -
  have "insertText (Val hello_caret) (Val [CR, LF]) False =
     (Inl StartExceedsLength,
      Val \<lparr>value' = ''Hello'' @ [LF], selectionStart = 6, selectionEnd = 6, focused = False,
           focusable = True\<rparr>)"
    by (simp add: insertText_def hello_caret_def substring_def substring_from_def
        dom_set_value_def setSelection_def num_gt_def of_length_def Let_def CR_def LF_def)
  moreover have "Val \<lparr>value' = ''Hello'' @ [LF], selectionStart = 6, selectionEnd = 6,
        focused = False, focusable = True\<rparr> \<noteq> Val hello_caret"
    by (simp add: hello_caret_def)
  ultimately show ?thesis using wf_hello_caret by simp
qed

text \<open>
  C8. \<open>insertText\<close> throws when the text is \<open>null\<close> or \<open>undefined\<close> (on a textarea that is
  present, with the message that the text is required) and does not throw for the empty
  string on a textarea whose selection lies in its value. \<open>wrapSelection\<close> throws when
  the prefix or the suffix is \<open>null\<close> or \<open>undefined\<close>; with both empty it returns and
  the value is what it was.
\<close>

theorem null_arguments_rejected:
  "(textArg = Null \<or> textArg = Undefined \<longrightarrow>
      isl (fst (insertText ta textArg si)) \<and>
      insertText (Val t) textArg si = (Inl TextRequired, Val t)) \<and>
   (wf_textarea t \<longrightarrow> \<not> isl (fst (insertText (Val t) (Val []) si))) \<and>
   (pre = Null \<or> pre = Undefined \<longrightarrow>
      isl (fst (wrapSelection ta pre suf sw)) \<and>
      wrapSelection (Val t) pre suf sw = (Inl PrefixRequired, Val t)) \<and>
   (suf = Null \<or> suf = Undefined \<longrightarrow>
      isl (fst (wrapSelection ta pre suf sw)) \<and>
      wrapSelection (Val t) (Val p) suf sw = (Inl SuffixRequired, Val t)) \<and>
   (wf_textarea t \<longrightarrow>
      (\<exists>r t'. wrapSelection (Val t) (Val []) (Val []) sw = (Inr r, Val t') \<and>
         value' t' = value' t))"
proof -
  have a: "isl (fst (insertText ta textArg si)) \<and>
      insertText (Val t) textArg si = (Inl TextRequired, Val t)" if "textArg = Null \<or> textArg = Undefined"
    using that by (cases ta) (auto simp: insertText_fail_cases)
  have b: "\<not> isl (fst (insertText (Val t) (Val []) si))" if "wf_textarea t"
    by (simp add: insertText_effect [OF that])
  have c: "isl (fst (wrapSelection ta pre suf sw)) \<and>
      wrapSelection (Val t) pre suf sw = (Inl PrefixRequired, Val t)"
    if "pre = Null \<or> pre = Undefined"
    using that by (cases ta) (auto simp: wrapSelection_fail_cases)
  have d: "isl (fst (wrapSelection ta pre suf sw)) \<and>
      wrapSelection (Val t) (Val p) suf sw = (Inl SuffixRequired, Val t)"
    if "suf = Null \<or> suf = Undefined"
    using that by (cases ta; cases pre) (auto simp: wrapSelection_fail_cases)
  have e: "\<exists>r t'. wrapSelection (Val t) (Val []) (Val []) sw = (Inr r, Val t') \<and>
         value' t' = value' t" if "wf_textarea t"
  proof -
    from that have se: "selectionStart t \<le> selectionEnd t"
      and el: "selectionEnd t \<le> length (value' t)"
      by (simp_all add: wf_textarea_def)
    have "take (selectionEnd t - selectionStart t) (drop (selectionStart t) (value' t)) @
            drop (selectionEnd t) (value' t) = drop (selectionStart t) (value' t)"
      using se el by (metis append_take_drop_id drop_drop le_add_diff_inverse2)
    then show ?thesis
      by (simp add: wrapSelection_effect [OF that] Let_def)
  qed
  show ?thesis using a b c d e by blast
qed

theorem null_arguments_rejected_witness:
  "wf_textarea hello_world \<and>
   insertText (Val hello_world) Null False = (Inl TextRequired, Val hello_world) \<and>
   \<not> isl (fst (insertText (Val hello_world) (Val []) False)) \<and>
   wrapSelection (Val hello_world) Undefined (Val ''**'') False =
     (Inl PrefixRequired, Val hello_world) \<and>
   wrapSelection (Val hello_world) (Val ''**'') Null False =
     (Inl SuffixRequired, Val hello_world) \<and>
   (\<exists>r t'. wrapSelection (Val hello_world) (Val []) (Val []) False = (Inr r, Val t') \<and>
      value' t' = value' hello_world)"
proof -
  note a = null_arguments_rejected
    [where t = hello_world and ta = "Val hello_world" and si = False and sw = False
       and p = "''**''"]
  have 1: "insertText (Val hello_world) Null False = (Inl TextRequired, Val hello_world)"
    using a [where textArg = Null] by simp
  have 2: "\<not> isl (fst (insertText (Val hello_world) (Val []) False))"
    using a wf_hello_world by blast
  have 3: "wrapSelection (Val hello_world) Undefined (Val ''**'') False =
     (Inl PrefixRequired, Val hello_world)"
    using a [where pre = Undefined and suf = "Val ''**''"] by simp
  have 4: "wrapSelection (Val hello_world) (Val ''**'') Null False =
     (Inl SuffixRequired, Val hello_world)"
    using a [where suf = Null] by simp
  have 5: "\<exists>r t'. wrapSelection (Val hello_world) (Val []) (Val []) False = (Inr r, Val t') \<and>
      value' t' = value' hello_world"
    using a wf_hello_world by blast
  from 1 2 3 4 5 wf_hello_world show ?thesis by blast
qed

section \<open>Parsing a wiki link\<close>

text \<open>
  C9. Parsing "Check [[Aragorn|Hero#appearance]] today" gives exactly one match; its
  data has target "Aragorn", display "Hero", section "appearance" and raw
  "[[Aragorn|Hero#appearance]]".
\<close>

theorem parse_aragorn:
  "map data (parse ''Check [[Aragorn|Hero#appearance]] today'') =
     [\<lparr>target = ''Aragorn'', display = ''Hero'', section' = Some ''appearance'',
       raw = ''[[Aragorn|Hero#appearance]]''\<rparr>]"
  by (simp add: parse_def parseWikiLink_def)

end
